theory Spec2Isabelle
  imports Complex_Main "HOL-Library.Sublist" "HOL-Library.Char_ord" "HOL-Library.List_Lexorder"
begin

section \<open>The data analyzer: tables, the session and its operations\<close>

text \<open>
  The program (\<^verbatim>\<open>data_analyzer.py\<close>) keeps one data frame and its display name in a
  \<^verbatim>\<open>DataAnalyzer\<close> object and drives it from a menu loop. The data frame library is
  not part of the program; each library call is modelled by the effect the program relies
  on: \<^verbatim>\<open>duplicated\<close> marks a row that equals an earlier row, \<^verbatim>\<open>drop_duplicates\<close>
  keeps the unmarked rows, \<^verbatim>\<open>isnull\<close> tests for a missing cell, \<^verbatim>\<open>median\<close> and
  \<^verbatim>\<open>mode\<close> skip missing cells, \<^verbatim>\<open>fillna(v, inplace=True)\<close> on a column writes
  \<^verbatim>\<open>v\<close> into the missing cells of that column of the frame, and \<^verbatim>\<open>select_dtypes\<close>
  selects columns by their type. Numbers are rationals (the exact values that the
  library's floats approximate). Text is a list of characters with code points below 256.
\<close>

subsection \<open>Tables\<close>

datatype dtype = Numeric | Object | Str | Category | Datetime | Bool

datatype cell = Missing | Num rat | Text string | Date int | Flag bool

record table =
  columns :: "(string \<times> dtype) list"
  rows :: "cell list list"



definition shape :: "table \<Rightarrow> nat \<times> nat" where
  "shape t = (length (rows t), length (columns t))"

definition col :: "table \<Rightarrow> nat \<Rightarrow> cell list" where
  "col t i = map (\<lambda>r. r ! i) (rows t)"

definition select_dtypes :: "dtype list \<Rightarrow> table \<Rightarrow> nat list" where
  "select_dtypes incl t =
     filter (\<lambda>i. snd (columns t ! i) \<in> set incl) [0..<length (columns t)]"

definition isnull_sum :: "table \<Rightarrow> nat \<Rightarrow> nat" where
  "isnull_sum t i = length (filter (\<lambda>c. c = Missing) (col t i))"

definition isnull_total :: "table \<Rightarrow> nat" where
  "isnull_total t = sum_list (map (isnull_sum t) [0..<length (columns t)])"

definition head_rows :: "nat \<Rightarrow> table \<Rightarrow> cell list list" where
  "head_rows n t = take n (rows t)"

subsection \<open>Duplicate rows\<close>

text \<open>\<^verbatim>\<open>DataFrame.duplicated()\<close>: one flag per row, set when the row equals a row before
  it (two missing cells count as equal). A frame with no row or no column is "empty" for
  the library and yields no flag at all. \<^verbatim>\<open>drop_duplicates()\<close> keeps the rows whose flag
  is clear, and returns an empty frame as it is.\<close>

fun duplicated_rows :: "cell list list \<Rightarrow> cell list list \<Rightarrow> bool list" where
  "duplicated_rows seen [] = []"
| "duplicated_rows seen (r # rs) = (r \<in> set seen) # duplicated_rows (r # seen) rs"

definition is_empty :: "table \<Rightarrow> bool" where
  "is_empty t \<longleftrightarrow> columns t = [] \<or> rows t = []"

definition duplicated :: "table \<Rightarrow> bool list" where
  "duplicated t = (if is_empty t then [] else duplicated_rows [] (rows t))"

definition mask_rows :: "cell list list \<Rightarrow> bool list \<Rightarrow> cell list list" where
  "mask_rows rs ds = map fst (filter (\<lambda>rd. \<not> snd rd) (zip rs ds))"

definition drop_duplicates :: "table \<Rightarrow> table" where
  "drop_duplicates t =
     (if is_empty t then t else t\<lparr>rows := mask_rows (rows t) (duplicated t)\<rparr>)"

definition count_true :: "bool list \<Rightarrow> nat" where
  "count_true ds = length (filter (\<lambda>d. d) ds)"

subsection \<open>Median, mode and filling\<close>

text \<open>\<^verbatim>\<open>Series.median()\<close>: the middle of the sorted non-missing numbers, the mean of the
  two middle ones when their number is even, and missing (NaN) when there is none.\<close>

definition median :: "cell list \<Rightarrow> cell" where
  "median xs =
     (let vs = sort (concat (map (\<lambda>c. case c of Num v \<Rightarrow> [v] | _ \<Rightarrow> []) xs));
          n = length vs
      in if n = 0 then Missing
         else if odd n then Num (vs ! (n div 2))
         else Num ((vs ! (n div 2 - 1) + vs ! (n div 2)) / 2))"

text \<open>\<^verbatim>\<open>Series.mode()\<close>: the most frequent non-missing values, in ascending order; none
  when every cell is missing.\<close>

definition mode :: "cell list \<Rightarrow> cell list" where
  "mode xs =
     (let vs = concat (map (\<lambda>c. case c of Text v \<Rightarrow> [v] | _ \<Rightarrow> []) xs)
      in if vs = [] then []
         else let m = Max (set (map (count_list vs) vs))
              in map Text (sort (remdups (filter (\<lambda>v. count_list vs v = m) vs))))"

text \<open>\<^verbatim>\<open>df[col].fillna(v, inplace=True)\<close>: every missing cell of the column becomes
  \<^verbatim>\<open>v\<close>; the other cells and the other columns stay.\<close>

definition fillna :: "table \<Rightarrow> nat \<Rightarrow> cell \<Rightarrow> table" where
  "fillna t i v = t\<lparr>rows := map (\<lambda>r. if r ! i = Missing then r[i := v] else r) (rows t)\<rparr>"

subsection \<open>The session, its output and its effects\<close>

record session =
  df :: "table option"
  filename :: "string option"

datatype error = KeyError | ValueError | EOFError

text \<open>What an operation prints, one constructor for each message of the program; a
  message that renders part of the frame carries that part.\<close>

datatype out =
    UnsupportedFileType string
  | SuccessfullyLoaded string
  | ShapeLine nat nat
  | ErrorLoadingFile string
  | SampleCreated
  | NoDataPleaseLoad
  | NoDataLoaded
  | Banner string
  | FileLine "string option"
  | RowsColumns nat nat
  | ColumnInformation "(string \<times> dtype) list"
  | FirstRows "cell list list"
  | MissingValues "(string \<times> nat) list"
  | NoMissingValues
  | NumericDescribe "(string \<times> cell list) list"
  | ValueCountsHead string "cell list" nat
  | RemovedDuplicates nat
  | NoDuplicateRows
  | FilledMissing nat
  | NoMissingToFill
  | RowsBeforeAfter nat nat
  | DashboardSaved string
  | ReportExported string
  | Welcome
  | Menu
  | Prompt string
  | Goodbye
  | InvalidChoice

text \<open>The two output files. The dashboard has four panels, each drawn or left blank; the
  report is written section by section.\<close>

record dashboard =
  title :: "string option"
  histogram :: "(string \<times> cell list) option"
  bar_chart :: "(string \<times> cell list \<times> nat) option"
  heatmap :: "(string \<times> cell list) list option"
  scatter :: "((string \<times> cell list) \<times> (string \<times> cell list)) option"

datatype report_item =
    ReportHeader
  | ReportDataset "string option"
  | ReportGenerated string
  | ReportShape nat nat
  | ReportColumnTypes "(string \<times> dtype) list"
  | ReportDescribe "(string \<times> cell list) list"
  | ReportTopRows "cell list list"

datatype file_content = Image dashboard | Report "report_item list"

text \<open>The effect of one operation: the session after it, what it printed, the files it
  opened for writing, and the exception that left it, if any.\<close>

record effect =
  state :: session
  printed :: "out list"
  written :: "(string \<times> file_content) list"
  raised :: "error option"

definition say :: "session \<Rightarrow> out list \<Rightarrow> effect" where
  "say s os = \<lparr>state = s, printed = os, written = [], raised = None\<rparr>"

subsection \<open>clean_data\<close>

fun fill_median_cols :: "nat list \<Rightarrow> table \<Rightarrow> table" where
  "fill_median_cols [] t = t"
| "fill_median_cols (i # is) t =
     fill_median_cols is
       (if isnull_sum t i > 0 then fillna t i (median (col t i)) else t)"

text \<open>\<^verbatim>\<open>mode()[0]\<close> on a column without any value raises \<^verbatim>\<open>KeyError\<close>; the columns
  filled before it stay filled.\<close>

fun fill_mode_cols :: "nat list \<Rightarrow> table \<Rightarrow> table \<times> error option" where
  "fill_mode_cols [] t = (t, None)"
| "fill_mode_cols (i # is) t =
     (if isnull_sum t i > 0
      then (case mode (col t i) of
              [] \<Rightarrow> (t, Some KeyError)
            | v # _ \<Rightarrow> fill_mode_cols is (fillna t i v))
      else fill_mode_cols is t)"

definition clean_data :: "session \<Rightarrow> effect" where
  "clean_data s =
     (case df s of
        None \<Rightarrow> say s [NoDataLoaded]
      | Some t \<Rightarrow>
          let initial_rows = length (rows t);
              duplicates = count_true (duplicated t);
              t1 = (if duplicates > 0 then drop_duplicates t else t);
              o1 = (if duplicates > 0 then RemovedDuplicates duplicates else NoDuplicateRows);
              missing = isnull_total t1
          in if missing > 0
             then
               let t2 = fill_median_cols (select_dtypes [Numeric] t1) t1
               in (case fill_mode_cols (select_dtypes [Object, Str] t2) t2 of
                     (t3, Some e) \<Rightarrow>
                       \<lparr>state = s\<lparr>df := Some t3\<rparr>,
                        printed = [Banner ''DATA CLEANING'', o1],
                        written = [], raised = Some e\<rparr>
                   | (t3, None) \<Rightarrow>
                       say (s\<lparr>df := Some t3\<rparr>)
                         [Banner ''DATA CLEANING'', o1, FilledMissing missing,
                          RowsBeforeAfter initial_rows (length (rows t3))])
             else
               say (s\<lparr>df := Some t1\<rparr>)
                 [Banner ''DATA CLEANING'', o1, NoMissingToFill,
                  RowsBeforeAfter initial_rows (length (rows t1))])"

subsection \<open>show_overview\<close>

definition missing_per_column :: "table \<Rightarrow> (string \<times> nat) list" where
  "missing_per_column t =
     map (\<lambda>i. (fst (columns t ! i), isnull_sum t i)) [0..<length (columns t)]"

definition show_overview :: "session \<Rightarrow> effect" where
  "show_overview s =
     (case df s of
        None \<Rightarrow> say s [NoDataPleaseLoad]
      | Some t \<Rightarrow>
          let missing = missing_per_column t
          in say s
               [Banner ''DATASET OVERVIEW'', FileLine (filename s),
                RowsColumns (fst (shape t)) (snd (shape t)),
                ColumnInformation (columns t),
                FirstRows (head_rows 5 t),
                if sum_list (map snd missing) > 0
                then MissingValues (filter (\<lambda>m. snd m > 0) missing)
                else NoMissingValues])"

subsection \<open>Paths and text\<close>

text \<open>\<^verbatim>\<open>Path(p).name\<close> is the last component of the path, where empty components and
  \<^verbatim>\<open>.\<close> components do not count; \<^verbatim>\<open>Path(p).suffix\<close> is the part of the name from
  its last dot on, when that dot is neither the first nor the last character.\<close>

fun split_on :: "char \<Rightarrow> string \<Rightarrow> string list" where
  "split_on d [] = [[]]"
| "split_on d (c # cs) =
     (if c = d then [] # split_on d cs
      else (case split_on d cs of [] \<Rightarrow> [[c]] | w # ws \<Rightarrow> (c # w) # ws))"

definition path_parts :: "string \<Rightarrow> string list" where
  "path_parts p = filter (\<lambda>w. w \<noteq> [] \<and> w \<noteq> ''.'') (split_on CHR ''/'' p)"

definition path_name :: "string \<Rightarrow> string" where
  "path_name p = (case rev (path_parts p) of [] \<Rightarrow> [] | n # _ \<Rightarrow> n)"

fun rfind :: "char \<Rightarrow> string \<Rightarrow> nat option" where
  "rfind d [] = None"
| "rfind d (c # cs) =
     (case rfind d cs of
        Some i \<Rightarrow> Some (Suc i)
      | None \<Rightarrow> if c = d then Some 0 else None)"

definition path_suffix :: "string \<Rightarrow> string" where
  "path_suffix p =
     (let name = path_name p
      in case rfind CHR ''.'' name of
           None \<Rightarrow> []
         | Some i \<Rightarrow> if 0 < i \<and> i < length name - 1 then drop i name else [])"

text \<open>\<^verbatim>\<open>str.lower()\<close> and \<^verbatim>\<open>str.strip()\<close> on code points below 256.\<close>

definition char_lower :: "char \<Rightarrow> char" where
  "char_lower c =
     (let n = (of_char c :: nat)
      in if (65 \<le> n \<and> n \<le> 90) \<or> (192 \<le> n \<and> n \<le> 222 \<and> n \<noteq> 215)
         then char_of (n + 32) else c)"

definition str_lower :: "string \<Rightarrow> string" where
  "str_lower s = map char_lower s"

definition is_space :: "char \<Rightarrow> bool" where
  "is_space c =
     (let n = (of_char c :: nat)
      in (9 \<le> n \<and> n \<le> 13) \<or> (28 \<le> n \<and> n \<le> 32) \<or> n = 133 \<or> n = 160)"

definition str_strip :: "string \<Rightarrow> string" where
  "str_strip s = rev (dropWhile is_space (rev (dropWhile is_space s)))"

subsection \<open>The environment\<close>

text \<open>What the program reads from outside: the two parsers (a failure is the message of
  the exception they raise), the clock, and the generator behind \<^verbatim>\<open>np.random\<close> after
  \<^verbatim>\<open>seed(42)\<close>: \<^verbatim>\<open>np_random e k i\<close> is the raw number behind element \<^verbatim>\<open>i\<close> of the
  \<^verbatim>\<open>k\<close>-th array drawn.\<close>

record env =
  read_csv :: "string \<Rightarrow> string + table"
  read_excel :: "string \<Rightarrow> string + table"
  now :: string
  np_random :: "nat \<Rightarrow> nat \<Rightarrow> nat"

subsection \<open>load_data\<close>

definition load_data :: "env \<Rightarrow> session \<Rightarrow> string \<Rightarrow> effect \<times> bool" where
  "load_data e s filepath =
     (let file_ext = str_lower (path_suffix filepath);
          parsed = (if file_ext = ''.csv'' then Some (read_csv e filepath)
                    else if file_ext \<in> set [''.xlsx'', ''.xls''] then Some (read_excel e filepath)
                    else None)
      in case parsed of
           None \<Rightarrow> (say s [UnsupportedFileType file_ext], False)
         | Some (Inl msg) \<Rightarrow> (say s [ErrorLoadingFile msg], False)
         | Some (Inr t) \<Rightarrow>
             (say \<lparr>df = Some t, filename = Some (path_name filepath)\<rparr>
                [SuccessfullyLoaded (path_name filepath),
                 ShapeLine (fst (shape t)) (snd (shape t))], True))"

subsection \<open>create_sample_data\<close>

definition random_choice :: "(nat \<Rightarrow> nat) \<Rightarrow> 'a list \<Rightarrow> nat \<Rightarrow> 'a list" where
  "random_choice raw a n = map (\<lambda>i. a ! (raw i mod length a)) [0..<n]"

definition random_randint :: "(nat \<Rightarrow> nat) \<Rightarrow> int \<Rightarrow> int \<Rightarrow> nat \<Rightarrow> int list" where
  "random_randint raw lo hi n = map (\<lambda>i. lo + int (raw i) mod (hi - lo)) [0..<n]"

text \<open>\<^verbatim>\<open>date_range('2024-01-01', periods=n, freq='D')\<close>; a date is its day number, day 0
  being 1970-01-01, so that 2024-01-01 is day 19723.\<close>

definition date_range :: "int \<Rightarrow> nat \<Rightarrow> int list" where
  "date_range start n = map (\<lambda>i. start + int i) [0..<n]"

text \<open>\<^verbatim>\<open>round(2)\<close>: to the nearest multiple of 1/100, a tie to the even one.\<close>

definition round2 :: "rat \<Rightarrow> rat" where
  "round2 q =
     (let x = q * 100; f = \<lfloor>x\<rfloor>; d = x - of_int f
      in of_int (if d < 1 / 2 then f
                 else if 1 / 2 < d then f + 1
                 else if even f then f else f + 1) / 100)"

definition sample_table :: "env \<Rightarrow> table" where
  "sample_table e =
     (let dates = date_range 19723 100;
          regions = random_choice (np_random e 0) [''North'', ''South'', ''East'', ''West''] 100;
          products = random_choice (np_random e 1) [''Product A'', ''Product B'', ''Product C''] 100;
          sales = random_randint (np_random e 2) 1000 10000 100;
          units = random_randint (np_random e 3) 10 100 100
      in \<lparr>columns = [(''Date'', Datetime), (''Region'', Str), (''Product'', Str),
                     (''Sales'', Numeric), (''Units'', Numeric), (''Price'', Numeric)],
          rows = map (\<lambda>i. [Date (dates ! i), Text (regions ! i), Text (products ! i),
                            Num (of_int (sales ! i)), Num (of_int (units ! i)),
                            Num (round2 (of_int (sales ! i) / of_int (units ! i)))])
                   [0..<100]\<rparr>)"

definition create_sample_data :: "env \<Rightarrow> session \<Rightarrow> effect \<times> bool" where
  "create_sample_data e s =
     (say \<lparr>df = Some (sample_table e), filename = Some ''sample_sales_data.csv''\<rparr>
        [SampleCreated], True)"

subsection \<open>show_statistics\<close>

definition named_cols :: "table \<Rightarrow> nat list \<Rightarrow> (string \<times> cell list) list" where
  "named_cols t is = map (\<lambda>i. (fst (columns t ! i), col t i)) is"

definition show_statistics :: "session \<Rightarrow> effect" where
  "show_statistics s =
     (case df s of
        None \<Rightarrow> say s [NoDataLoaded]
      | Some t \<Rightarrow>
          let numeric_cols = select_dtypes [Numeric] t;
              categorical_cols = select_dtypes [Object, Category, Str] t
          in say s
               ([Banner ''STATISTICAL SUMMARY'']
                @ (if length numeric_cols > 0
                   then [NumericDescribe (named_cols t numeric_cols)] else [])
                @ map (\<lambda>i. ValueCountsHead (fst (columns t ! i)) (col t i) 5) categorical_cols))"

subsection \<open>create_visualizations\<close>

definition dropna :: "cell list \<Rightarrow> cell list" where
  "dropna xs = filter (\<lambda>c. c \<noteq> Missing) xs"

definition create_visualizations :: "session \<Rightarrow> effect" where
  "create_visualizations s =
     (case df s of
        None \<Rightarrow> say s [NoDataLoaded]
      | Some t \<Rightarrow>
          let numeric_cols = select_dtypes [Numeric] t;
              categorical_cols = select_dtypes [Object, Category, Str] t;
              name = (\<lambda>i. fst (columns t ! i));
              fig = \<lparr>title = filename s,
                     histogram =
                       (if length numeric_cols > 0
                        then Some (name (numeric_cols ! 0), dropna (col t (numeric_cols ! 0)))
                        else None),
                     bar_chart =
                       (if length categorical_cols > 0
                        then Some (name (categorical_cols ! 0), col t (categorical_cols ! 0), 10)
                        else None),
                     heatmap =
                       (if length numeric_cols \<ge> 2
                        then Some (named_cols t numeric_cols) else None),
                     scatter =
                       (if length numeric_cols \<ge> 2
                        then Some ((name (numeric_cols ! 0), col t (numeric_cols ! 0)),
                                   (name (numeric_cols ! 1), col t (numeric_cols ! 1)))
                        else None)\<rparr>;
              output_file = ''analysis_dashboard.png''
          in \<lparr>state = s,
              printed = [Banner ''CREATING VISUALIZATIONS'', DashboardSaved output_file],
              written = [(output_file, Image fig)],
              raised = None\<rparr>)"

subsection \<open>export_report\<close>

text \<open>\<^verbatim>\<open>DataFrame.describe()\<close> summarises the numeric and date columns, or every column
  when there is none of these, and raises \<^verbatim>\<open>ValueError\<close> on a frame without columns. The
  report file is open by then, and holds what was written before.\<close>

definition describe :: "table \<Rightarrow> error + (string \<times> cell list) list" where
  "describe t =
     (if columns t = [] then Inl ValueError
      else let d = select_dtypes [Numeric, Datetime] t
           in Inr (named_cols t (if d = [] then [0..<length (columns t)] else d)))"

definition export_report :: "env \<Rightarrow> session \<Rightarrow> effect" where
  "export_report e s =
     (case df s of
        None \<Rightarrow> say s [NoDataLoaded]
      | Some t \<Rightarrow>
          let report_file = ''analysis_report.txt'';
              preamble = [ReportHeader, ReportDataset (filename s), ReportGenerated (now e),
                        ReportShape (fst (shape t)) (snd (shape t)),
                        ReportColumnTypes (columns t)]
          in case describe t of
               Inl err \<Rightarrow>
                 \<lparr>state = s, printed = [],
                  written = [(report_file, Report preamble)], raised = Some err\<rparr>
             | Inr d \<Rightarrow>
                 \<lparr>state = s, printed = [ReportExported report_file],
                  written = [(report_file,
                              Report (preamble @ [ReportDescribe d, ReportTopRows (head_rows 5 t)]))],
                  raised = None\<rparr>)"

subsection \<open>The menu loop\<close>

text \<open>\<^verbatim>\<open>main\<close> reads the lines of standard input one by one; \<^verbatim>\<open>input()\<close> raises
  \<^verbatim>\<open>EOFError\<close> when there is no line left. The loop ends at choice 8, or with the
  exception that leaves it. \<^verbatim>\<open>dispatch\<close> is one pass through the body of the loop for
  the choices that read no second line.\<close>

definition and_then :: "effect \<Rightarrow> effect \<Rightarrow> effect" where
  "and_then a b =
     \<lparr>state = state b, printed = printed a @ printed b,
      written = written a @ written b, raised = raised b\<rparr>"

definition dispatch :: "env \<Rightarrow> session \<Rightarrow> string \<Rightarrow> effect" where
  "dispatch e s choice =
     (if choice = ''2'' then fst (create_sample_data e s)
      else if choice = ''3'' then show_overview s
      else if choice = ''4'' then show_statistics s
      else if choice = ''5'' then clean_data s
      else if choice = ''6'' then create_visualizations s
      else if choice = ''7'' then export_report e s
      else say s [InvalidChoice])"

datatype ending = Exited | Uncaught error

fun main_loop :: "env \<Rightarrow> session \<Rightarrow> string list \<Rightarrow> effect \<times> ending" where
  "main_loop e s [] =
     (\<lparr>state = s, printed = [Menu, Prompt ''Enter your choice (1-8): ''],
       written = [], raised = Some EOFError\<rparr>, Uncaught EOFError)"
| "main_loop e s (l # ls) =
     (let asked = say s [Menu, Prompt ''Enter your choice (1-8): ''];
          choice = str_strip l
      in if choice = ''1'' then
           (case ls of
              [] \<Rightarrow>
                (and_then asked
                   \<lparr>state = s, printed = [Prompt ''Enter file path: ''],
                    written = [], raised = Some EOFError\<rparr>, Uncaught EOFError)
            | p # ls' \<Rightarrow>
                let a = and_then (and_then asked (say s [Prompt ''Enter file path: '']))
                          (fst (load_data e s (str_strip p)));
                    r = main_loop e (state a) ls'
                in (and_then a (fst r), snd r))
         else if choice = ''8'' then (and_then asked (say s [Goodbye]), Exited)
         else
           let a = and_then asked (dispatch e s choice)
           in (case raised a of
                 Some err \<Rightarrow> (a, Uncaught err)
               | None \<Rightarrow>
                   let r = main_loop e (state a) ls
                   in (and_then a (fst r), snd r)))"

definition init :: session where
  "init = \<lparr>df = None, filename = None\<rparr>"

definition main :: "env \<Rightarrow> string list \<Rightarrow> effect \<times> ending" where
  "main e inputs =
     (let r = main_loop e init inputs
      in (and_then (say init [Welcome]) (fst r), snd r))"

subsection \<open>Notions used in the properties\<close>

text \<open>The first occurrences of the elements of a list, in the order of the list.\<close>

definition first_occurrences :: "'a list \<Rightarrow> 'a list" where
  "first_occurrences rs =
     map (\<lambda>i. rs ! i) (filter (\<lambda>i. rs ! i \<notin> set (take i rs)) [0..<length rs])"

text \<open>A row after filling: every cell is the cell before, unless that one was missing.\<close>

definition filled_from :: "cell list \<Rightarrow> cell list \<Rightarrow> bool" where
  "filled_from r r' \<longleftrightarrow> list_all2 (\<lambda>c c'. c' = c \<or> c = Missing) r r'"

text \<open>The frame after the duplicate step of \<^verbatim>\<open>clean_data\<close>.\<close>

definition deduplicated :: "table \<Rightarrow> table" where
  "deduplicated t = (if count_true (duplicated t) > 0 then drop_duplicates t else t)"

text \<open>The scenario of a file with a text column \<^verbatim>\<open>Region\<close> (of type \<^verbatim>\<open>d\<close>, which is
  \<^verbatim>\<open>object\<close> or \<^verbatim>\<open>str\<close> with the version of the library) and an integer column
  \<^verbatim>\<open>Sales\<close>, whose third row repeats the first.\<close>

definition scen :: "dtype \<Rightarrow> session" where
  "scen d = \<lparr>df = Some \<lparr>columns = [(''Region'', d), (''Sales'', Numeric)],
     rows = [[Text ''North'', Num 100], [Text ''South'', Num 200], [Text ''North'', Num 100]]\<rparr>,
     filename = Some ''regions.csv''\<rparr>"


text \<open>A table with a duplicate row and a missing number.\<close>

definition dirty_table :: table where
  "dirty_table =
     \<lparr>columns = [(''X'', Numeric), (''Y'', Object)],
      rows = [[Num 1, Text ''a''], [Missing, Text ''a''], [Num 1, Text ''a''],
              [Num 3, Missing]]\<rparr>"

definition dirty :: session where
  "dirty = \<lparr>df = Some dirty_table, filename = Some ''dirty.csv''\<rparr>"



text \<open>An environment in which one file can be read.\<close>

definition disk :: env where
  "disk =
     \<lparr>read_csv = (\<lambda>p. if p = ''regions.csv'' then Inr dirty_table
                       else Inl ''No such file or directory''),
      read_excel = (\<lambda>p. Inl ''Excel file format cannot be determined''),
      now = ''2024-01-01 00:00:00'',
      np_random = (\<lambda>k i. 7 * i + k)\<rparr>"

text \<open>The table and its source name are set or unset together.\<close>

definition consistent :: "session \<Rightarrow> bool" where
  "consistent s \<longleftrightarrow> (df s = None \<longleftrightarrow> filename s = None)"

text \<open>The two states of the menu loop: no table, or a table.\<close>

datatype menu_state = Idle | Loaded

definition menu_state_of :: "session \<Rightarrow> menu_state" where
  "menu_state_of s = (if df s = None then Idle else Loaded)"

text \<open>A menu choice that is not a number (a non-empty string of decimal digits), or a
  number outside the range 1 to 8.\<close>

definition is_numeric :: "string \<Rightarrow> bool" where
  "is_numeric w \<longleftrightarrow> w \<noteq> [] \<and> list_all (\<lambda>c. CHR ''0'' \<le> c \<and> c \<le> CHR ''9'') w"

definition numeric_value :: "string \<Rightarrow> nat" where
  "numeric_value w = foldl (\<lambda>n c. 10 * n + (of_char c - 48)) 0 w"

definition invalid_choice :: "string \<Rightarrow> bool" where
  "invalid_choice w \<longleftrightarrow> \<not> is_numeric w \<or> numeric_value w < 1 \<or> 8 < numeric_value w"

text \<open>A table without a numeric column.\<close>

definition text_only :: session where
  "text_only =
     \<lparr>df = Some \<lparr>columns = [(''When'', Datetime), (''Region'', Str)],
                 rows = [[Date 19723, Text ''North''], [Date 19724, Text ''South'']]\<rparr>,
      filename = Some ''regions.csv''\<rparr>"

section \<open>Properties\<close>

subsection \<open>Duplicate removal\<close>

lemma mask_rows_simps [simp]:
  "mask_rows [] ds = []"
  "mask_rows rs [] = []"
  "mask_rows (r # rs) (d # ds) = (if d then mask_rows rs ds else r # mask_rows rs ds)"
  by (simp_all add: mask_rows_def)

lemma upt2: "[0..<2] = [0, 1]" by (simp add: upt_conv_Cons)

lemma set_mask_duplicated:
  "set (mask_rows rs (duplicated_rows seen rs)) = set rs - set seen"
  by (induction rs arbitrary: seen) auto


lemma subseq_mask_rows: "subseq (mask_rows rs ds) rs"
proof (induction rs arbitrary: ds)
  case Nil then show ?case by simp
next
  case (Cons r rs) then show ?case by (cases ds) auto
qed

lemma length_duplicated_rows [simp]: "length (duplicated_rows seen rs) = length rs"
  by (induction rs arbitrary: seen) auto


lemma count_true_zero_mask:
  "count_true (duplicated_rows seen rs) = 0 \<Longrightarrow> mask_rows rs (duplicated_rows seen rs) = rs"
  by (induction rs arbitrary: seen) (auto simp: count_true_def split: if_splits)

lemma mask_first_gen:
  "mask_rows rs (duplicated_rows seen rs) =
     map (\<lambda>i. rs ! i) (filter (\<lambda>i. rs ! i \<notin> set seen \<union> set (take i rs)) [0..<length rs])"
proof (induction rs arbitrary: seen)
  case Nil then show ?case by simp
next
  case (Cons r rs)
  have upt: "[0..<length (r # rs)] = 0 # map Suc [0..<length rs]"
    by (simp add: upt_conv_Cons map_Suc_upt del: upt_Suc)
  show ?case
    unfolding upt by (auto simp: Cons.IH filter_map comp_def conj_ac)
qed

lemma set_col: "set (col t i) = (\<lambda>r. r ! i) ` set (rows t)"
  by (simp add: col_def)



lemma columns_drop_duplicates [simp]: "columns (drop_duplicates t) = columns t"
  by (simp add: drop_duplicates_def)

lemma set_rows_drop_duplicates [simp]: "set (rows (drop_duplicates t)) = set (rows t)"
  by (simp add: drop_duplicates_def duplicated_def set_mask_duplicated)

lemma rows_drop_duplicates_empty_iff [simp]: "rows (drop_duplicates t) = [] \<longleftrightarrow> rows t = []"
  using set_rows_drop_duplicates [of t] by (metis set_empty)









text \<open>
  Claim C6. On the table with columns Region (text) and Sales (integer) and the rows
  (North, 100), (South, 200), (North, 100), \<^verbatim>\<open>show_overview\<close> reports 3 rows, 2 columns
  and no missing value, and \<^verbatim>\<open>clean_data\<close> removes 1 duplicate row and leaves 2 rows.
\<close>

theorem scenario_overview_and_clean:
  "printed (show_overview (scen d)) =
     [Banner ''DATASET OVERVIEW'', FileLine (Some ''regions.csv''), RowsColumns 3 2,
      ColumnInformation [(''Region'', d), (''Sales'', Numeric)],
      FirstRows [[Text ''North'', Num 100], [Text ''South'', Num 200], [Text ''North'', Num 100]],
      NoMissingValues] \<and>
   clean_data (scen d) =
     \<lparr>state = \<lparr>df = Some \<lparr>columns = [(''Region'', d), (''Sales'', Numeric)],
                rows = [[Text ''North'', Num 100], [Text ''South'', Num 200]]\<rparr>,
              filename = Some ''regions.csv''\<rparr>,
      printed = [Banner ''DATA CLEANING'', RemovedDuplicates 1, NoMissingToFill, RowsBeforeAfter 3 2],
      written = [], raised = None\<rparr>"
proof
  show "printed (show_overview (scen d)) =
     [Banner ''DATASET OVERVIEW'', FileLine (Some ''regions.csv''), RowsColumns 3 2,
      ColumnInformation [(''Region'', d), (''Sales'', Numeric)],
      FirstRows [[Text ''North'', Num 100], [Text ''South'', Num 200], [Text ''North'', Num 100]],
      NoMissingValues]"
    by (simp add: scen_def show_overview_def say_def shape_def head_rows_def
        missing_per_column_def isnull_sum_def col_def upt2)
  show "clean_data (scen d) =
     \<lparr>state = \<lparr>df = Some \<lparr>columns = [(''Region'', d), (''Sales'', Numeric)],
                rows = [[Text ''North'', Num 100], [Text ''South'', Num 200]]\<rparr>,
              filename = Some ''regions.csv''\<rparr>,
      printed = [Banner ''DATA CLEANING'', RemovedDuplicates 1, NoMissingToFill, RowsBeforeAfter 3 2],
      written = [], raised = None\<rparr>"
    by (simp add: scen_def clean_data_def say_def duplicated_def is_empty_def count_true_def
        drop_duplicates_def isnull_total_def isnull_sum_def col_def upt2 Let_def)
qed

lemma filled_from_refl: "filled_from r r"
  by (simp add: filled_from_def list_all2_same)

lemma filled_from_trans: "filled_from a b \<Longrightarrow> filled_from b c \<Longrightarrow> filled_from a c"
  unfolding filled_from_def
  by (rule list_all2_trans [of "\<lambda>c c'. c' = c \<or> c = Missing" "\<lambda>c c'. c' = c \<or> c = Missing"]) auto

lemma filled_from_update: "r ! i = Missing \<Longrightarrow> filled_from r (r[i := v])"
  by (auto simp: filled_from_def list_all2_conv_all_nth) (metis nth_list_update_neq)

lemma rows_filled_refl: "list_all2 filled_from rs rs"
  by (simp add: list_all2_same filled_from_refl)

lemma rows_filled_trans:
  "list_all2 filled_from a b \<Longrightarrow> list_all2 filled_from b c \<Longrightarrow> list_all2 filled_from a c"
  by (rule list_all2_trans [of filled_from filled_from filled_from, OF filled_from_trans])

lemma columns_fillna [simp]: "columns (fillna t i v) = columns t"
  by (simp add: fillna_def)

lemma rows_fillna: "list_all2 filled_from (rows t) (rows (fillna t i v))"
  by (simp add: fillna_def list_all2_map2 list_all2_same filled_from_refl filled_from_update)

lemma columns_fill_median_cols [simp]: "columns (fill_median_cols is t) = columns t"
  by (induction "is" arbitrary: t) auto

lemma rows_fill_median_cols: "list_all2 filled_from (rows t) (rows (fill_median_cols is t))"
proof (induction "is" arbitrary: t)
  case Nil
  show ?case by (simp add: rows_filled_refl)
next
  case (Cons i "is")
  let ?t' = "if isnull_sum t i > 0 then fillna t i (median (col t i)) else t"
  have a: "list_all2 filled_from (rows t) (rows ?t')"
    by (simp add: rows_fillna rows_filled_refl)
  have b: "list_all2 filled_from (rows ?t') (rows (fill_median_cols is ?t'))"
    by (rule Cons.IH)
  show ?case using rows_filled_trans [OF a b] by simp
qed

lemma columns_fill_mode_cols [simp]: "columns (fst (fill_mode_cols is t)) = columns t"
  by (induction "is" arbitrary: t) (auto split: list.splits)

lemma rows_fill_mode_cols: "list_all2 filled_from (rows t) (rows (fst (fill_mode_cols is t)))"
proof (induction "is" arbitrary: t)
  case Nil
  show ?case by (simp add: rows_filled_refl)
next
  case (Cons i "is")
  show ?case
  proof (cases "isnull_sum t i > 0")
    case False
    then show ?thesis using Cons.IH by simp
  next
    case True
    show ?thesis
    proof (cases "mode (col t i)")
      case Nil
      with True show ?thesis by (simp add: rows_filled_refl)
    next
      case (Cons v vs)
      have "list_all2 filled_from (rows t) (rows (fst (fill_mode_cols is (fillna t i v))))"
        by (rule rows_filled_trans [OF rows_fillna Cons.IH])
      with True Cons show ?thesis by simp
    qed
  qed
qed

lemma first_occurrences_mask:
  "mask_rows rs (duplicated_rows [] rs) = first_occurrences rs"
  by (simp add: mask_first_gen first_occurrences_def)

lemma columns_deduplicated [simp]: "columns (deduplicated t) = columns t"
  by (simp add: deduplicated_def)

lemma rows_deduplicated:
  "rows (deduplicated t) =
     (if columns t = [] then rows t else first_occurrences (rows t))"
proof (cases "is_empty t")
  case True
  then show ?thesis
    by (auto simp: deduplicated_def duplicated_def count_true_def is_empty_def
        first_occurrences_def)
next
  case False
  then show ?thesis
    using count_true_zero_mask [of "[]" "rows t"]
    by (auto simp: deduplicated_def duplicated_def drop_duplicates_def is_empty_def
        first_occurrences_mask)
qed

lemma subseq_rows_deduplicated: "subseq (rows (deduplicated t)) (rows t)"
  by (simp add: deduplicated_def drop_duplicates_def subseq_mask_rows)

lemma set_rows_deduplicated [simp]: "set (rows (deduplicated t)) = set (rows t)"
  by (simp add: deduplicated_def)

lemma clean_data_state:
  assumes "df s = Some t"
  shows "\<exists>t3. state (clean_data s) = s\<lparr>df := Some t3\<rparr> \<and> columns t3 = columns t \<and>
           list_all2 filled_from (rows (deduplicated t)) (rows t3)"
proof -
  let ?t1 = "deduplicated t"
  let ?t2 = "fill_median_cols (select_dtypes [Numeric] ?t1) ?t1"
  let ?r = "fill_mode_cols (select_dtypes [Object, Str] ?t2) ?t2"
  show ?thesis
  proof (cases "isnull_total ?t1 > 0")
    case False
    then have "state (clean_data s) = s\<lparr>df := Some ?t1\<rparr>"
      using assms by (simp add: clean_data_def say_def Let_def deduplicated_def)
    then show ?thesis by (auto simp: rows_filled_refl)
  next
    case True
    then have "state (clean_data s) = s\<lparr>df := Some (fst ?r)\<rparr>"
      using assms
      by (cases ?r) (auto simp: clean_data_def say_def Let_def deduplicated_def split: option.splits)
    moreover have "columns (fst ?r) = columns t" by simp
    moreover have "list_all2 filled_from (rows ?t1) (rows (fst ?r))"
      using rows_fill_median_cols rows_fill_mode_cols rows_filled_trans by blast
    ultimately show ?thesis by blast
  qed
qed

text \<open>
  Claim C10. \<^verbatim>\<open>clean_data\<close> on a loaded table keeps the table loaded and the source name,
  keeps the columns (names, types and order), does not add rows, and its rows are, in
  order, the rows \<^verbatim>\<open>ks\<close> with missing cells filled, where \<^verbatim>\<open>ks\<close> is the first occurrence
  of every row of the table (all the rows, for a frame without columns), a subsequence of
  the rows before.
\<close>

theorem clean_data_frame:
  assumes "df s = Some t"
  shows "\<exists>t' ks. df (state (clean_data s)) = Some t' \<and>
           filename (state (clean_data s)) = filename s \<and>
           columns t' = columns t \<and>
           length (rows t') \<le> length (rows t) \<and>
           ks = (if columns t = [] then rows t else first_occurrences (rows t)) \<and>
           subseq ks (rows t) \<and>
           list_all2 filled_from ks (rows t')"
proof -
  from clean_data_state [OF assms] obtain t3 where
    st: "state (clean_data s) = s\<lparr>df := Some t3\<rparr>" and
    cs: "columns t3 = columns t" and
    rs: "list_all2 filled_from (rows (deduplicated t)) (rows t3)"
    by blast
  have "length (rows t3) = length (rows (deduplicated t))"
    using rs by (simp add: list_all2_lengthD)
  then have "length (rows t3) \<le> length (rows t)"
    using subseq_rows_deduplicated [of t] by (simp add: list_emb_length)
  with st cs rs subseq_rows_deduplicated [of t] show ?thesis
    by (simp add: rows_deduplicated)
qed

theorem clean_data_frame_witness:
  "df dirty = Some dirty_table \<and>
   (\<exists>t' ks. df (state (clean_data dirty)) = Some t' \<and>
      filename (state (clean_data dirty)) = filename dirty \<and>
      columns t' = columns dirty_table \<and>
      length (rows t') \<le> length (rows dirty_table) \<and>
      ks = (if columns dirty_table = [] then rows dirty_table
            else first_occurrences (rows dirty_table)) \<and>
      subseq ks (rows dirty_table) \<and>
      list_all2 filled_from ks (rows t'))"
proof -
  have h: "df dirty = Some dirty_table" by (simp add: dirty_def)
  from clean_data_frame [OF h] h show ?thesis by simp
qed

subsection \<open>Filling\<close>

lemma rows_fillna_eq:
  "rows (fillna t i v) = map (\<lambda>r. if r ! i = Missing then r[i := v] else r) (rows t)"
  by (simp add: fillna_def)












lemma mem_select_dtypes:
  "i \<in> set (select_dtypes incl t) \<longleftrightarrow> i < length (columns t) \<and> snd (columns t ! i) \<in> set incl"
  by (auto simp: select_dtypes_def)


lemma clean_data_filled:
  assumes "df s = Some t" and "isnull_total (deduplicated t) > 0"
  shows "state (clean_data s) =
           s\<lparr>df := Some (fst (fill_mode_cols
              (select_dtypes [Object, Str]
                 (fill_median_cols (select_dtypes [Numeric] (deduplicated t)) (deduplicated t)))
              (fill_median_cols (select_dtypes [Numeric] (deduplicated t)) (deduplicated t))))\<rparr>"
    and "raised (clean_data s) =
           snd (fill_mode_cols
              (select_dtypes [Object, Str]
                 (fill_median_cols (select_dtypes [Numeric] (deduplicated t)) (deduplicated t)))
              (fill_median_cols (select_dtypes [Numeric] (deduplicated t)) (deduplicated t)))"
  using assms
  by (auto simp: clean_data_def say_def Let_def deduplicated_def split: option.splits prod.splits)


lemma mode_not_empty:
  assumes "Text v \<in> set xs"
  shows "mode xs \<noteq> []"
proof -
  define vs where "vs = concat (map (\<lambda>c. case c of Text v \<Rightarrow> [v] | _ \<Rightarrow> []) xs)"
  define m where "m = Max (set (map (count_list vs) vs))"
  have "v \<in> set vs"
    unfolding vs_def using assms by (auto intro!: bexI [of _ "Text v"])
  then have ne: "vs \<noteq> []" by (cases vs) auto
  then have "m \<in> set (map (count_list vs) vs)"
    unfolding m_def by (intro Max_in) auto
  then obtain w where "w \<in> set vs" "count_list vs w = m" by auto
  then have "filter (\<lambda>v. count_list vs v = m) vs \<noteq> []"
    by (auto simp: filter_empty_conv)
  then have "map Text (sort (remdups (filter (\<lambda>v. count_list vs v = m) vs))) \<noteq> []"
    by (metis Nil_is_map_conv length_0_conv length_sort remdups_eq_nil_iff)
  moreover have "mode xs = map Text (sort (remdups (filter (\<lambda>v. count_list vs v = m) vs)))"
    using ne unfolding mode_def vs_def [symmetric] Let_def m_def [symmetric] by simp
  ultimately show ?thesis by simp
qed

lemma col_fillna_keeps:
  assumes "c \<in> set (col t i)" and "c \<noteq> Missing"
  shows "c \<in> set (col (fillna t j w) i)"
proof -
  from assms(1) obtain r where r: "r \<in> set (rows t)" "c = r ! i" by (auto simp: set_col)
  let ?r' = "if r ! j = Missing then r[j := w] else r"
  have a: "?r' \<in> set (rows (fillna t j w))" using r(1) by (simp add: rows_fillna_eq)
  have b: "c = ?r' ! i"
  proof (cases "r ! j = Missing")
    case True
    then have "i \<noteq> j" using r(2) assms(2) by auto
    then show ?thesis using True r(2) by simp
  next
    case False
    then show ?thesis using r(2) by simp
  qed
  show ?thesis unfolding set_col using a b by (rule rev_image_eqI)
qed

lemma col_fill_median_cols_keeps:
  "c \<in> set (col t i) \<Longrightarrow> c \<noteq> Missing \<Longrightarrow> c \<in> set (col (fill_median_cols is t) i)"
proof (induction "is" arbitrary: t)
  case Nil
  then show ?case by simp
next
  case (Cons j js)
  let ?t' = "if isnull_sum t j > 0 then fillna t j (median (col t j)) else t"
  have "c \<in> set (col ?t' i)"
  proof (cases "isnull_sum t j > 0")
    case True
    then show ?thesis using col_fillna_keeps [OF Cons.prems] by (simp only: if_True)
  next
    case False
    then show ?thesis using Cons.prems(1) by (simp only: if_False)
  qed
  then have "c \<in> set (col (fill_median_cols js ?t') i)"
    using Cons.prems(2) by (rule Cons.IH)
  then show ?case by (simp only: fill_median_cols.simps)
qed

lemma fill_mode_cols_returns:
  assumes "\<forall>i\<in>set is. \<exists>v. Text v \<in> set (col t i)"
  shows "snd (fill_mode_cols is t) = None"
  using assms
proof (induction "is" arbitrary: t)
  case Nil
  then show ?case by simp
next
  case (Cons j js)
  from Cons.prems obtain v where "Text v \<in> set (col t j)" by auto
  then obtain w ws where m: "mode (col t j) = w # ws"
    using mode_not_empty [of v "col t j"] by (cases "mode (col t j)") auto
  have "\<forall>i\<in>set js. \<exists>v. Text v \<in> set (col (fillna t j w) i)"
  proof
    fix i assume "i \<in> set js"
    with Cons.prems obtain u where "Text u \<in> set (col t i)" by auto
    then have "Text u \<in> set (col (fillna t j w) i)" by (rule col_fillna_keeps) simp
    then show "\<exists>v. Text v \<in> set (col (fillna t j w) i)" ..
  qed
  then have "snd (fill_mode_cols js (fillna t j w)) = None" by (rule Cons.IH)
  moreover have "snd (fill_mode_cols js t) = None" using Cons.prems by (intro Cons.IH) simp
  ultimately show ?case using m by simp
qed

text \<open>\<^verbatim>\<open>clean_data\<close> raises nothing when every text column holds a value.\<close>

lemma clean_data_returns:
  assumes "df s = Some t"
    and "\<forall>i<length (columns t). snd (columns t ! i) \<in> {Object, Str} \<longrightarrow>
           (\<exists>v. Text v \<in> set (col t i))"
  shows "raised (clean_data s) = None"
proof (cases "isnull_total (deduplicated t) > 0")
  case False
  then show ?thesis
    using assms(1) by (simp add: clean_data_def say_def Let_def deduplicated_def)
next
  case True
  let ?t1 = "deduplicated t"
  let ?t2 = "fill_median_cols (select_dtypes [Numeric] ?t1) ?t1"
  have "\<exists>v. Text v \<in> set (col ?t2 i)" if "i \<in> set (select_dtypes [Object, Str] ?t2)" for i
  proof -
    from that have "i < length (columns t)" "snd (columns t ! i) \<in> {Object, Str}"
      by (auto simp: mem_select_dtypes)
    with assms(2) obtain v where "Text v \<in> set (col t i)" by blast
    then have "Text v \<in> set (col ?t1 i)" by (simp add: set_col)
    then have "Text v \<in> set (col ?t2 i)" by (intro col_fill_median_cols_keeps) simp_all
    then show ?thesis ..
  qed
  then have "snd (fill_mode_cols (select_dtypes [Object, Str] ?t2) ?t2) = None"
    by (intro fill_mode_cols_returns) blast
  then show ?thesis using clean_data_filled(2) [OF assms(1) True] by simp
qed




subsection \<open>Loading\<close>

text \<open>
  Claim C3. \<^verbatim>\<open>load_data\<close> on a path whose lower-cased suffix is none of \<^verbatim>\<open>.csv\<close>,
  \<^verbatim>\<open>.xlsx\<close>, \<^verbatim>\<open>.xls\<close> reports the unsupported type, and on a path whose parser
  raises it reports the error; in both cases it returns \<^verbatim>\<open>False\<close>, writes no file and
  leaves the session (table and source name) as it was.
\<close>

theorem load_data_failure:
  "(str_lower (path_suffix p) \<notin> {''.csv'', ''.xlsx'', ''.xls''} \<longrightarrow>
      load_data e s p =
        (\<lparr>state = s, printed = [UnsupportedFileType (str_lower (path_suffix p))],
          written = [], raised = None\<rparr>, False)) \<and>
   (str_lower (path_suffix p) = ''.csv'' \<and> read_csv e p = Inl msg \<longrightarrow>
      load_data e s p =
        (\<lparr>state = s, printed = [ErrorLoadingFile msg], written = [], raised = None\<rparr>, False)) \<and>
   (str_lower (path_suffix p) \<in> {''.xlsx'', ''.xls''} \<and> read_excel e p = Inl msg \<longrightarrow>
      load_data e s p =
        (\<lparr>state = s, printed = [ErrorLoadingFile msg], written = [], raised = None\<rparr>, False))"
  by (auto simp: load_data_def say_def Let_def)

theorem load_data_failure_witness:
  "str_lower (path_suffix ''notes.TXT'') \<notin> {''.csv'', ''.xlsx'', ''.xls''} \<and>
   load_data disk dirty ''notes.TXT'' =
     (\<lparr>state = dirty, printed = [UnsupportedFileType ''.txt''], written = [], raised = None\<rparr>,
      False) \<and>
   str_lower (path_suffix ''/data/Sales.CSV'') = ''.csv'' \<and>
   read_csv disk ''/data/Sales.CSV'' = Inl ''No such file or directory'' \<and>
   load_data disk dirty ''/data/Sales.CSV'' =
     (\<lparr>state = dirty, printed = [ErrorLoadingFile ''No such file or directory''],
       written = [], raised = None\<rparr>, False) \<and>
   str_lower (path_suffix ''book.v2.xlsx'') \<in> {''.xlsx'', ''.xls''} \<and>
   read_excel disk ''book.v2.xlsx'' = Inl ''Excel file format cannot be determined'' \<and>
   load_data disk dirty ''book.v2.xlsx'' =
     (\<lparr>state = dirty, printed = [ErrorLoadingFile ''Excel file format cannot be determined''],
       written = [], raised = None\<rparr>, False)"
proof -
  have a: "str_lower (path_suffix ''notes.TXT'') = ''.txt''" by code_simp
  have b: "str_lower (path_suffix ''/data/Sales.CSV'') = ''.csv''" by code_simp
  have b': "read_csv disk ''/data/Sales.CSV'' = Inl ''No such file or directory''"
    by (simp add: disk_def)
  have c: "str_lower (path_suffix ''book.v2.xlsx'') = ''.xlsx''" by code_simp
  have c': "read_excel disk ''book.v2.xlsx'' = Inl ''Excel file format cannot be determined''"
    by (simp add: disk_def)
  show ?thesis
    using load_data_failure [where p = "''notes.TXT''" and e = disk and s = dirty]
      load_data_failure [where p = "''/data/Sales.CSV''" and e = disk and s = dirty
        and msg = "''No such file or directory''"]
      load_data_failure [where p = "''book.v2.xlsx''" and e = disk and s = dirty
        and msg = "''Excel file format cannot be determined''"]
      a b b' c c'
    by simp
qed

subsection \<open>The sample table\<close>

text \<open>Whatever the generator draws, the sample has 100 rows and the six columns, and
  the drawn integers lie in their ranges (so that no unit count is zero).\<close>

lemma shape_sample_table: "shape (sample_table e) = (100, 6)"
  by (simp add: sample_table_def shape_def Let_def)

lemma columns_sample_table:
  "columns (sample_table e) =
     [(''Date'', Datetime), (''Region'', Str), (''Product'', Str),
      (''Sales'', Numeric), (''Units'', Numeric), (''Price'', Numeric)]"
  by (simp add: sample_table_def Let_def)

lemma random_randint_range:
  assumes "lo < hi" and "x \<in> set (random_randint raw lo hi n)"
  shows "lo \<le> x \<and> x < hi"
proof -
  from assms(2) obtain i where x: "x = lo + int (raw i) mod (hi - lo)"
    by (auto simp: random_randint_def)
  have "0 \<le> int (raw i) mod (hi - lo)" "int (raw i) mod (hi - lo) < hi - lo"
    using assms(1) by (simp_all add: pos_mod_sign pos_mod_bound)
  with x show ?thesis by linarith
qed

subsection \<open>Operations without a table\<close>

text \<open>
  Claim C4. With no table in the session, each of \<^verbatim>\<open>show_overview\<close>,
  \<^verbatim>\<open>show_statistics\<close>, \<^verbatim>\<open>export_report\<close>, \<^verbatim>\<open>clean_data\<close> and
  \<^verbatim>\<open>create_visualizations\<close> prints its "no data" message, writes no file, raises
  nothing and leaves the session unchanged.
\<close>

theorem no_table_no_effect:
  assumes "df s = None"
  shows "show_overview s =
           \<lparr>state = s, printed = [NoDataPleaseLoad], written = [], raised = None\<rparr> \<and>
         show_statistics s =
           \<lparr>state = s, printed = [NoDataLoaded], written = [], raised = None\<rparr> \<and>
         export_report e s =
           \<lparr>state = s, printed = [NoDataLoaded], written = [], raised = None\<rparr> \<and>
         clean_data s =
           \<lparr>state = s, printed = [NoDataLoaded], written = [], raised = None\<rparr> \<and>
         create_visualizations s =
           \<lparr>state = s, printed = [NoDataLoaded], written = [], raised = None\<rparr>"
  using assms
  by (simp add: show_overview_def show_statistics_def export_report_def clean_data_def
      create_visualizations_def say_def)

theorem no_table_no_effect_witness:
  "df init = None \<and>
   show_overview init =
     \<lparr>state = init, printed = [NoDataPleaseLoad], written = [], raised = None\<rparr> \<and>
   show_statistics init =
     \<lparr>state = init, printed = [NoDataLoaded], written = [], raised = None\<rparr> \<and>
   export_report disk init =
     \<lparr>state = init, printed = [NoDataLoaded], written = [], raised = None\<rparr> \<and>
   clean_data init =
     \<lparr>state = init, printed = [NoDataLoaded], written = [], raised = None\<rparr> \<and>
   create_visualizations init =
     \<lparr>state = init, printed = [NoDataLoaded], written = [], raised = None\<rparr>"
proof -
  have h: "df init = None" by (simp add: init_def)
  from no_table_no_effect [OF h, of disk] h show ?thesis by simp
qed

subsection \<open>The dashboard\<close>

text \<open>
  Claim C8. On a loaded table \<^verbatim>\<open>create_visualizations\<close> completes and writes the image
  file; with no numeric column the histogram, the heatmap and the scatter plot are blank;
  and each panel is blank exactly when its precondition fails: the histogram without a
  numeric column, the bar chart without a text or categorical column, the heatmap and the
  scatter plot with fewer than two numeric columns.
\<close>

theorem visualize_panels:
  assumes "df s = Some t"
  shows "\<exists>fig. create_visualizations s =
             \<lparr>state = s,
              printed = [Banner ''CREATING VISUALIZATIONS'', DashboardSaved ''analysis_dashboard.png''],
              written = [(''analysis_dashboard.png'', Image fig)],
              raised = None\<rparr> \<and>
           (select_dtypes [Numeric] t = [] \<longrightarrow>
              histogram fig = None \<and> heatmap fig = None \<and> scatter fig = None) \<and>
           (histogram fig = None \<longleftrightarrow> select_dtypes [Numeric] t = []) \<and>
           (bar_chart fig = None \<longleftrightarrow> select_dtypes [Object, Category, Str] t = []) \<and>
           (heatmap fig = None \<longleftrightarrow> length (select_dtypes [Numeric] t) < 2) \<and>
           (scatter fig = None \<longleftrightarrow> length (select_dtypes [Numeric] t) < 2)"
  using assms by (auto simp: create_visualizations_def Let_def)

theorem visualize_panels_witness:
  "df text_only = Some \<lparr>columns = [(''When'', Datetime), (''Region'', Str)],
                 rows = [[Date 19723, Text ''North''], [Date 19724, Text ''South'']]\<rparr> \<and>
   select_dtypes [Numeric] \<lparr>columns = [(''When'', Datetime), (''Region'', Str)],
                 rows = [[Date 19723, Text ''North''], [Date 19724, Text ''South'']]\<rparr> = [] \<and>
   create_visualizations text_only =
     \<lparr>state = text_only,
      printed = [Banner ''CREATING VISUALIZATIONS'', DashboardSaved ''analysis_dashboard.png''],
      written = [(''analysis_dashboard.png'',
                  Image \<lparr>title = Some ''regions.csv'', histogram = None,
                         bar_chart = Some (''Region'', [Text ''North'', Text ''South''], 10),
                         heatmap = None, scatter = None\<rparr>)],
      raised = None\<rparr>"
proof -
  let ?t = "\<lparr>columns = [(''When'', Datetime), (''Region'', Str)],
                 rows = [[Date 19723, Text ''North''], [Date 19724, Text ''South'']]\<rparr>"
  have h: "df text_only = Some ?t" by (simp add: text_only_def)
  have n: "select_dtypes [Numeric] ?t = []" by code_simp
  have c: "select_dtypes [Object, Category, Str] ?t = [1]" by code_simp
  from visualize_panels [OF h] obtain fig where
    f: "create_visualizations text_only =
         \<lparr>state = text_only,
          printed = [Banner ''CREATING VISUALIZATIONS'', DashboardSaved ''analysis_dashboard.png''],
          written = [(''analysis_dashboard.png'', Image fig)], raised = None\<rparr>"
    and b: "select_dtypes [Numeric] ?t = [] \<longrightarrow>
              histogram fig = None \<and> heatmap fig = None \<and> scatter fig = None"
    by blast
  have "written (create_visualizations text_only) =
      [(''analysis_dashboard.png'',
        Image \<lparr>title = Some ''regions.csv'', histogram = None,
               bar_chart = Some (''Region'', [Text ''North'', Text ''South''], 10),
               heatmap = None, scatter = None\<rparr>)]"
    by code_simp
  with f have "fig = \<lparr>title = Some ''regions.csv'', histogram = None,
               bar_chart = Some (''Region'', [Text ''North'', Text ''South''], 10),
               heatmap = None, scatter = None\<rparr>" by simp
  with f h n show ?thesis by simp
qed

subsection \<open>Sessions and the menu loop\<close>

lemma state_and_then [simp]: "state (and_then a b) = state b"
  by (simp add: and_then_def)

lemma raised_and_then [simp]: "raised (and_then a b) = raised b"
  by (simp add: and_then_def)

lemma state_say [simp]: "state (say s os) = s"
  by (simp add: say_def)

lemma consistent_load_data: "consistent s \<Longrightarrow> consistent (state (fst (load_data e s p)))"
  by (auto simp: load_data_def Let_def consistent_def split: option.splits sum.splits)

lemma consistent_create_sample_data: "consistent (state (fst (create_sample_data e s)))"
  by (simp add: create_sample_data_def consistent_def)

lemma state_show_overview [simp]: "state (show_overview s) = s"
  by (simp add: show_overview_def Let_def split: option.splits)

lemma state_show_statistics [simp]: "state (show_statistics s) = s"
  by (simp add: show_statistics_def Let_def split: option.splits)

lemma state_create_visualizations [simp]: "state (create_visualizations s) = s"
  by (simp add: create_visualizations_def Let_def split: option.splits)

lemma state_export_report [simp]: "state (export_report e s) = s"
  by (simp add: export_report_def Let_def split: option.splits sum.splits)

lemma state_clean_data:
  "state (clean_data s) = s \<or> (\<exists>t t'. df s = Some t \<and> state (clean_data s) = s\<lparr>df := Some t'\<rparr>)"
proof (cases "df s")
  case None
  then show ?thesis by (simp add: clean_data_def)
next
  case (Some t)
  from clean_data_state [OF Some] show ?thesis using Some by blast
qed

lemma consistent_clean_data: "consistent s \<Longrightarrow> consistent (state (clean_data s))"
  using state_clean_data [of s] by (auto simp: consistent_def)

lemma menu_state_clean_data: "menu_state_of (state (clean_data s)) = menu_state_of s"
  using state_clean_data [of s] by (auto simp: menu_state_of_def)

lemma consistent_dispatch: "consistent s \<Longrightarrow> consistent (state (dispatch e s c))"
  by (simp add: dispatch_def consistent_create_sample_data consistent_clean_data)

lemma consistent_main_loop:
  "consistent s \<Longrightarrow> consistent (state (fst (main_loop e s ls)))"
proof (induction e s ls rule: main_loop.induct)
  case (1 e s)
  then show ?case by simp
next
  case (2 e s l ls)
  show ?case
  proof (cases "str_strip l = ''1''")
    case True
    show ?thesis
    proof (cases ls)
      case Nil
      with True "2.prems" show ?thesis by simp
    next
      case (Cons p ls')
      have "consistent (state (fst (load_data e s (str_strip p))))"
        using "2.prems" by (rule consistent_load_data)
      then have "consistent (state (fst (main_loop e (state (fst (load_data e s (str_strip p)))) ls')))"
        using "2.IH"(1) [OF refl refl True Cons refl] by simp
      with True Cons show ?thesis by (simp add: Let_def)
    qed
  next
    case False
    show ?thesis
    proof (cases "str_strip l = ''8''")
      case True
      with "2.prems" show ?thesis by simp
    next
      case eight: False
      let ?a = "and_then (say s [Menu, Prompt ''Enter your choice (1-8): '']) (dispatch e s (str_strip l))"
      have c: "consistent (state ?a)"
        using "2.prems" by (simp add: consistent_dispatch)
      show ?thesis
      proof (cases "raised ?a")
        case None
        then have "consistent (state (fst (main_loop e (state ?a) ls)))"
          using "2.IH"(2) [OF refl refl False eight refl] c by simp
        with False eight None show ?thesis by (simp add: Let_def)
      next
        case (Some err)
        with False eight c show ?thesis by (simp add: Let_def)
      qed
    qed
  qed
qed

text \<open>
  Claim C9. The table and the source name are set or unset together: this holds at the
  start, every operation keeps it, and so does every run of the menu loop, on every list
  of input lines. A load that returns \<^verbatim>\<open>True\<close> and the generation of the sample set both
  the table and the name.
\<close>

theorem session_consistent:
  assumes "consistent s"
  shows "consistent init \<and>
         consistent (state (fst (load_data e s p))) \<and>
         consistent (state (fst (create_sample_data e s))) \<and>
         consistent (state (show_overview s)) \<and>
         consistent (state (show_statistics s)) \<and>
         consistent (state (clean_data s)) \<and>
         consistent (state (create_visualizations s)) \<and>
         consistent (state (export_report e s)) \<and>
         consistent (state (fst (main_loop e s inputs))) \<and>
         consistent (state (fst (main e inputs))) \<and>
         (snd (load_data e s p) \<longrightarrow>
            (\<exists>t. state (fst (load_data e s p)) =
                   \<lparr>df = Some t, filename = Some (path_name p)\<rparr>)) \<and>
         state (fst (create_sample_data e s)) =
           \<lparr>df = Some (sample_table e), filename = Some ''sample_sales_data.csv''\<rparr>"
proof -
  have i: "consistent init" by (simp add: init_def consistent_def)
  have "consistent (state (fst (main e inputs)))"
    using consistent_main_loop [OF i, where e = e and ls = inputs] by (simp add: main_def Let_def)
  moreover have "snd (load_data e s p) \<longrightarrow>
            (\<exists>t. state (fst (load_data e s p)) =
                   \<lparr>df = Some t, filename = Some (path_name p)\<rparr>)"
    by (auto simp: load_data_def Let_def split: option.splits sum.splits)
  moreover have "state (fst (create_sample_data e s)) =
           \<lparr>df = Some (sample_table e), filename = Some ''sample_sales_data.csv''\<rparr>"
    by (simp add: create_sample_data_def)
  moreover note i consistent_load_data [OF assms, where e = e and p = p]
    consistent_create_sample_data [where e = e and s = s] consistent_clean_data [OF assms]
    consistent_main_loop [OF assms, where e = e and ls = inputs]
  moreover have "consistent (state (show_overview s))" "consistent (state (show_statistics s))"
    "consistent (state (create_visualizations s))" "consistent (state (export_report e s))"
    using assms by simp_all
  ultimately show ?thesis by blast
qed

theorem session_consistent_witness:
  "consistent init \<and> snd (load_data disk init ''regions.csv'') \<and>
   consistent (state (fst (load_data disk init ''regions.csv''))) \<and>
   consistent (state (clean_data init)) \<and>
   consistent (state (fst (main_loop disk init [''1'', ''regions.csv'', ''5'', ''q'', ''8'']))) \<and>
   consistent (state (fst (main disk [''1'', ''regions.csv'', ''5'', ''q'', ''8'']))) \<and>
   (\<exists>t. state (fst (load_data disk init ''regions.csv'')) =
          \<lparr>df = Some t, filename = Some (path_name ''regions.csv'')\<rparr>) \<and>
   state (fst (create_sample_data disk init)) =
     \<lparr>df = Some (sample_table disk), filename = Some ''sample_sales_data.csv''\<rparr>"
proof -
  have h1: "consistent init" by (simp add: init_def consistent_def)
  have h2: "snd (load_data disk init ''regions.csv'')" by code_simp
  from session_consistent [OF h1, where e = disk and p = "''regions.csv''"
      and inputs = "[''1'', ''regions.csv'', ''5'', ''q'', ''8'']"]
    h1 h2
  show ?thesis by simp
qed

lemma valid_choices:
  "\<not> invalid_choice ''1''" "\<not> invalid_choice ''2''" "\<not> invalid_choice ''3''"
  "\<not> invalid_choice ''4''" "\<not> invalid_choice ''5''" "\<not> invalid_choice ''6''"
  "\<not> invalid_choice ''7''" "\<not> invalid_choice ''8''"
  by code_simp+

lemma dispatch_invalid:
  assumes "invalid_choice c"
  shows "c \<noteq> ''1''" and "c \<noteq> ''8''" and "dispatch e s c = say s [InvalidChoice]"
  using assms valid_choices by (auto simp: dispatch_def)

lemma menu_state_dispatch:
  assumes "c \<in> {''3'', ''4'', ''5'', ''6'', ''7''}"
  shows "menu_state_of (state (dispatch e s c)) = menu_state_of s"
  using assms by (auto simp: dispatch_def menu_state_clean_data)

text \<open>
  Claim C7. In the menu loop, a line that is not a number, or a number outside 1 to 8,
  prints the error and the loop goes on from the same session; on the choices 3 to 7 the
  loop either stops with the exception of the operation or goes on from a session that is
  loaded exactly when the session before was; and the choice 8 ends the loop.
\<close>

theorem menu_loop_steps:
  "(invalid_choice (str_strip l) \<longrightarrow>
      main_loop e s (l # ls) =
        (and_then
           (and_then (say s [Menu, Prompt ''Enter your choice (1-8): '']) (say s [InvalidChoice]))
           (fst (main_loop e s ls)),
         snd (main_loop e s ls))) \<and>
   (str_strip l \<in> {''3'', ''4'', ''5'', ''6'', ''7''} \<longrightarrow>
      (\<exists>a. menu_state_of (state a) = menu_state_of s \<and>
           main_loop e s (l # ls) =
             (case raised a of
                Some err \<Rightarrow> (a, Uncaught err)
              | None \<Rightarrow> (and_then a (fst (main_loop e (state a) ls)),
                         snd (main_loop e (state a) ls))))) \<and>
   (str_strip l = ''8'' \<longrightarrow>
      main_loop e s (l # ls) =
        (and_then (say s [Menu, Prompt ''Enter your choice (1-8): '']) (say s [Goodbye]),
         Exited))"
proof (intro conjI impI)
  assume "invalid_choice (str_strip l)"
  from dispatch_invalid [OF this]
  show "main_loop e s (l # ls) =
        (and_then
           (and_then (say s [Menu, Prompt ''Enter your choice (1-8): '']) (say s [InvalidChoice]))
           (fst (main_loop e s ls)),
         snd (main_loop e s ls))"
    by (simp add: Let_def say_def)
next
  assume c: "str_strip l \<in> {''3'', ''4'', ''5'', ''6'', ''7''}"
  let ?a = "and_then (say s [Menu, Prompt ''Enter your choice (1-8): ''])
              (dispatch e s (str_strip l))"
  have "menu_state_of (state ?a) = menu_state_of s"
    using menu_state_dispatch [OF c] by simp
  moreover have "main_loop e s (l # ls) =
             (case raised ?a of
                Some err \<Rightarrow> (?a, Uncaught err)
              | None \<Rightarrow> (and_then ?a (fst (main_loop e (state ?a) ls)),
                         snd (main_loop e (state ?a) ls)))"
    using c by (auto simp: Let_def split: option.splits)
  ultimately show "\<exists>a. menu_state_of (state a) = menu_state_of s \<and>
           main_loop e s (l # ls) =
             (case raised a of
                Some err \<Rightarrow> (a, Uncaught err)
              | None \<Rightarrow> (and_then a (fst (main_loop e (state a) ls)),
                         snd (main_loop e (state a) ls)))"
    by blast
next
  assume "str_strip l = ''8''"
  then show "main_loop e s (l # ls) =
        (and_then (say s [Menu, Prompt ''Enter your choice (1-8): '']) (say s [Goodbye]),
         Exited)"
    by simp
qed

theorem menu_loop_steps_witness:
  "invalid_choice (str_strip ''abc'') \<and>
   main_loop disk dirty [''abc'', ''8''] =
     (and_then
        (and_then (say dirty [Menu, Prompt ''Enter your choice (1-8): '']) (say dirty [InvalidChoice]))
        (fst (main_loop disk dirty [''8''])),
      snd (main_loop disk dirty [''8''])) \<and>
   invalid_choice (str_strip '' 12 '') \<and>
   main_loop disk init ['' 12 '', ''8''] =
     (and_then
        (and_then (say init [Menu, Prompt ''Enter your choice (1-8): '']) (say init [InvalidChoice]))
        (fst (main_loop disk init [''8''])),
      snd (main_loop disk init [''8''])) \<and>
   str_strip '' 5 '' \<in> {''3'', ''4'', ''5'', ''6'', ''7''} \<and>
   (\<exists>a. menu_state_of (state a) = menu_state_of dirty \<and>
        main_loop disk dirty ['' 5 '', ''8''] =
          (case raised a of
             Some err \<Rightarrow> (a, Uncaught err)
           | None \<Rightarrow> (and_then a (fst (main_loop disk (state a) [''8''])),
                      snd (main_loop disk (state a) [''8''])))) \<and>
   str_strip ''8 '' = ''8'' \<and>
   main_loop disk dirty [''8 '', ''3''] =
     (and_then (say dirty [Menu, Prompt ''Enter your choice (1-8): '']) (say dirty [Goodbye]),
      Exited)"
proof -
  have h1: "invalid_choice (str_strip ''abc'')" by code_simp
  have h2: "invalid_choice (str_strip '' 12 '')" by code_simp
  have h3: "str_strip '' 5 '' \<in> {''3'', ''4'', ''5'', ''6'', ''7''}" by code_simp
  have h4: "str_strip ''8 '' = ''8''" by code_simp
  show ?thesis
    using menu_loop_steps [where l = "''abc''" and e = disk and s = dirty and ls = "[''8'']"]
      menu_loop_steps [where l = "'' 12 ''" and e = disk and s = init and ls = "[''8'']"]
      menu_loop_steps [where l = "'' 5 ''" and e = disk and s = dirty and ls = "[''8'']"]
      menu_loop_steps [where l = "''8 ''" and e = disk and s = dirty and ls = "[''3'']"]
      h1 h2 h3 h4
    by blast
qed

end
